theory Spec2Isabelle
  imports Main "HOL-Library.Word"
begin

section \<open>The Electron main process: \<open>electron/src/main.js\<close>\<close>

subsection \<open>Values that cross the process boundary\<close>

text \<open>
  The bodies exchanged with the Python API and the values returned over IPC are JSON.
  An object is an association list in the order the source writes its properties.
\<close>

datatype json =
    JNull
  | JBool bool
  | JNum int
  | JStr string
  | JArr "json list"
  | JObj "(string \<times> json) list"

text \<open>
  A JavaScript \<open>Error\<close> object. Everything \<open>fetch\<close>, \<open>response.json()\<close> and
  \<open>JSON.stringify\<close> throw is an \<open>Error\<close> (or a subclass) with a \<open>message\<close> string.
  A computation that may throw returns \<open>js_error + 'a\<close>, with \<open>Inl\<close> the thrown error.
\<close>

datatype js_error = Error (message: string)

text \<open>Decimal rendering of a number inside a template literal, \<open>`${n}`\<close>.\<close>

definition digit_char :: "nat \<Rightarrow> char" where
  "digit_char d = ''0123456789'' ! (d mod 10)"

fun show_nat :: "nat \<Rightarrow> string" where
  "show_nat n = (if n < 10 then [digit_char n] else show_nat (n div 10) @ [digit_char n])"

text \<open>
  Reading a string of decimal digits back as a number: what it means for a text to
  show a given status code. The value of a character is its distance from \<open>0\<close>.
\<close>

definition digit_value :: "char \<Rightarrow> nat" where
  "digit_value c = of_char c - of_char CHR ''0''"

definition decimal_value :: "string \<Rightarrow> nat" where
  "decimal_value ds = foldl (\<lambda>acc c. 10 * acc + digit_value c) 0 ds"

subsection \<open>\<open>makeApiCall\<close>\<close>

text \<open>
  The second argument of \<open>fetch\<close> and of \<open>makeApiCall\<close>: an object whose properties
  \<open>method\<close>, \<open>body\<close> and \<open>headers\<close> may each be absent (\<open>None\<close>).
\<close>

record request_init =
  method_of :: "string option"
  body_of :: "string option"
  headers_of :: "(string \<times> string) list option"

text \<open>
  What \<open>node-fetch\<close> hands back. The promise either rejects (no connection, aborted
  request, ...) or fulfils with a response, of which the code reads \<open>ok\<close> and \<open>status\<close>
  and calls \<open>json()\<close>, which in turn either rejects (a body that is not JSON) or
  fulfils with the parsed value. \<open>fetch\<close> itself is the environment: a parameter.
\<close>

record response =
  ok :: bool
  status :: nat
  json_body :: "js_error + json"

datatype fetch_result = FetchRejected js_error | FetchFulfilled response

type_synonym fetch_fn = "string \<Rightarrow> request_init \<Rightarrow> fetch_result"

definition PYTHON_API_URL :: string where
  "PYTHON_API_URL = ''http://127.0.0.1:5001''"

text \<open>
  The object literal \<open>{ headers: { 'Content-Type': 'application/json', ...options.headers }, ...options }\<close>:
  the spread of \<open>options\<close> comes last, so a \<open>headers\<close> property of \<open>options\<close> replaces
  the merged one; without it the headers are the content type alone.
\<close>

definition fetch_init :: "request_init \<Rightarrow> request_init" where
  "fetch_init options =
     \<lparr> method_of = method_of options,
       body_of = body_of options,
       headers_of =
         (case headers_of options of
            None \<Rightarrow> Some [(''Content-Type'', ''application/json'')]
          | Some h \<Rightarrow> Some h) \<rparr>"

text \<open>
  \<open>makeApiCall\<close>: the \<open>catch\<close> block logs and rethrows, so every error of the \<open>try\<close>
  block is the error of the call. Console output is not part of the result.
\<close>

definition makeApiCall :: "fetch_fn \<Rightarrow> string \<Rightarrow> request_init \<Rightarrow> js_error + json" where
  "makeApiCall fetch endpoint options =
     (case fetch (PYTHON_API_URL @ endpoint) (fetch_init options) of
        FetchRejected error \<Rightarrow> Inl error
      | FetchFulfilled response \<Rightarrow>
          if \<not> ok response
          then Inl (Error (''API call failed: '' @ show_nat (status response)))
          else json_body response)"

text \<open>A call with one argument: \<open>options\<close> takes its default \<open>{}\<close>.\<close>

definition no_options :: request_init where
  "no_options = \<lparr> method_of = None, body_of = None, headers_of = None \<rparr>"

subsection \<open>The IPC handlers\<close>

text \<open>
  Each handler registered with \<open>ipcMain.handle\<close> is an async function whose whole
  body is one \<open>try\<close>/\<open>catch\<close>. Its result is what the promise given to the renderer
  settles to: \<open>Inr\<close> a value it fulfils with, \<open>Inl\<close> an error it rejects with.
  \<open>JSON.stringify\<close> is a built-in of the environment and may throw (a cyclic value,
  a BigInt); it is a parameter.
\<close>

type_synonym stringify_fn = "json \<Rightarrow> js_error + string"

definition post_options :: request_init where
  "post_options = \<lparr> method_of = Some ''POST'', body_of = None, headers_of = None \<rparr>"

definition start_monitoring :: "fetch_fn \<Rightarrow> js_error + json" where
  "start_monitoring fetch =
     (case makeApiCall fetch ''/monitor/start'' post_options of
        Inr result \<Rightarrow> Inr result
      | Inl error \<Rightarrow> Inr (JObj [(''success'', JBool False), (''message'', JStr (message error))]))"

definition stop_monitoring :: "fetch_fn \<Rightarrow> js_error + json" where
  "stop_monitoring fetch =
     (case makeApiCall fetch ''/monitor/stop'' post_options of
        Inr result \<Rightarrow> Inr result
      | Inl error \<Rightarrow> Inr (JObj [(''success'', JBool False), (''message'', JStr (message error))]))"

definition get_monitoring_status :: "fetch_fn \<Rightarrow> js_error + json" where
  "get_monitoring_status fetch =
     (case makeApiCall fetch ''/monitor/status'' no_options of
        Inr st \<Rightarrow> Inr st
      | Inl error \<Rightarrow>
          Inr (JObj [(''isRunning'', JBool False), (''lastActivity'', JNull),
                     (''alerts'', JArr []), (''error'', JStr (message error))]))"

definition update_monitoring_settings :: "fetch_fn \<Rightarrow> stringify_fn \<Rightarrow> json \<Rightarrow> js_error + json" where
  "update_monitoring_settings fetch stringify settings =
     (case (case stringify settings of
              Inl error \<Rightarrow> Inl error
            | Inr text \<Rightarrow>
                makeApiCall fetch ''/monitor/settings''
                  \<lparr> method_of = Some ''PUT'', body_of = Some text, headers_of = None \<rparr>) of
        Inr result \<Rightarrow> Inr result
      | Inl error \<Rightarrow> Inr (JObj [(''success'', JBool False), (''message'', JStr (message error))]))"

definition get_alerts :: "fetch_fn \<Rightarrow> js_error + json" where
  "get_alerts fetch =
     (case makeApiCall fetch ''/monitor/alerts'' no_options of
        Inr result \<Rightarrow> Inr result
      | Inl error \<Rightarrow> Inr (JObj [(''alerts'', JArr [])]))"

definition start_ai :: "fetch_fn \<Rightarrow> js_error + json" where
  "start_ai fetch =
     (case makeApiCall fetch ''/ai/start'' post_options of
        Inr result \<Rightarrow> Inr result
      | Inl error \<Rightarrow> Inr (JObj [(''success'', JBool False), (''message'', JStr (message error))]))"

definition stop_ai :: "fetch_fn \<Rightarrow> js_error + json" where
  "stop_ai fetch =
     (case makeApiCall fetch ''/ai/stop'' post_options of
        Inr result \<Rightarrow> Inr result
      | Inl error \<Rightarrow> Inr (JObj [(''success'', JBool False), (''message'', JStr (message error))]))"

definition get_ai_status :: "fetch_fn \<Rightarrow> js_error + json" where
  "get_ai_status fetch =
     (case makeApiCall fetch ''/ai/status'' no_options of
        Inr st \<Rightarrow> Inr st
      | Inl error \<Rightarrow>
          Inr (JObj [(''isActive'', JBool False), (''contextMemorySize'', JNum 0),
                     (''conversationHistorySize'', JNum 0), (''error'', JStr (message error))]))"

definition chat_with_ai :: "fetch_fn \<Rightarrow> stringify_fn \<Rightarrow> json \<Rightarrow> js_error + json" where
  "chat_with_ai fetch stringify msg =
     (case (case stringify (JObj [(''message'', msg)]) of
              Inl error \<Rightarrow> Inl error
            | Inr text \<Rightarrow>
                makeApiCall fetch ''/ai/chat''
                  \<lparr> method_of = Some ''POST'', body_of = Some text, headers_of = None \<rparr>) of
        Inr result \<Rightarrow> Inr result
      | Inl error \<Rightarrow> Inr (JObj [(''success'', JBool False), (''message'', JStr (message error))]))"

text \<open>
  The channels \<open>preload.js\<close> exposes to the renderer, and \<open>ipcRenderer.invoke\<close> on
  each: the handler registered under that name, applied to the argument sent along
  (ignored by the handlers that take none).
\<close>

datatype channel =
    StartMonitoring | StopMonitoring | GetMonitoringStatus | UpdateMonitoringSettings
  | GetAlerts | StartAI | StopAI | GetAIStatus | ChatWithAI

fun invoke :: "fetch_fn \<Rightarrow> stringify_fn \<Rightarrow> channel \<Rightarrow> json \<Rightarrow> js_error + json" where
  "invoke fetch stringify StartMonitoring arg = start_monitoring fetch"
| "invoke fetch stringify StopMonitoring arg = stop_monitoring fetch"
| "invoke fetch stringify GetMonitoringStatus arg = get_monitoring_status fetch"
| "invoke fetch stringify UpdateMonitoringSettings arg = update_monitoring_settings fetch stringify arg"
| "invoke fetch stringify GetAlerts arg = get_alerts fetch"
| "invoke fetch stringify StartAI arg = start_ai fetch"
| "invoke fetch stringify StopAI arg = stop_ai fetch"
| "invoke fetch stringify GetAIStatus arg = get_ai_status fetch"
| "invoke fetch stringify ChatWithAI arg = chat_with_ai fetch stringify arg"

text \<open>
  What the \<open>try\<close> block of each handler does before it returns: the call of
  \<open>makeApiCall\<close>, after \<open>JSON.stringify\<close> where the request has a body. This is the
  underlying API call whose failure the handlers absorb.
\<close>

fun api_call :: "fetch_fn \<Rightarrow> stringify_fn \<Rightarrow> channel \<Rightarrow> json \<Rightarrow> js_error + json" where
  "api_call fetch stringify StartMonitoring arg = makeApiCall fetch ''/monitor/start'' post_options"
| "api_call fetch stringify StopMonitoring arg = makeApiCall fetch ''/monitor/stop'' post_options"
| "api_call fetch stringify GetMonitoringStatus arg = makeApiCall fetch ''/monitor/status'' no_options"
| "api_call fetch stringify UpdateMonitoringSettings arg =
     (case stringify arg of
        Inl error \<Rightarrow> Inl error
      | Inr text \<Rightarrow>
          makeApiCall fetch ''/monitor/settings''
            \<lparr> method_of = Some ''PUT'', body_of = Some text, headers_of = None \<rparr>)"
| "api_call fetch stringify GetAlerts arg = makeApiCall fetch ''/monitor/alerts'' no_options"
| "api_call fetch stringify StartAI arg = makeApiCall fetch ''/ai/start'' post_options"
| "api_call fetch stringify StopAI arg = makeApiCall fetch ''/ai/stop'' post_options"
| "api_call fetch stringify GetAIStatus arg = makeApiCall fetch ''/ai/status'' no_options"
| "api_call fetch stringify ChatWithAI arg =
     (case stringify (JObj [(''message'', arg)]) of
        Inl error \<Rightarrow> Inl error
      | Inr text \<Rightarrow>
          makeApiCall fetch ''/ai/chat''
            \<lparr> method_of = Some ''POST'', body_of = Some text, headers_of = None \<rparr>)"

section \<open>The development launcher: \<open>checkPort\<close>, \<open>waitForServices\<close>, \<open>startElectron\<close>\<close>

subsection \<open>\<open>checkPort\<close>\<close>

text \<open>
  A TCP port is a 16-bit number. The three events the code listens to on the socket,
  and the lines it prints (the decoration of the messages is left out).
\<close>

type_synonym port = "16 word"

datatype socket_event = Connect | Timeout | SocketError

datatype console_line =
    IsReady string port
  | WaitingFor string port

text \<open>
  A promise is pending, fulfilled with a value or rejected with an error. Calling
  \<open>resolve\<close> on a promise that is already settled does nothing.
\<close>

datatype 'a promise = Pending | Fulfilled 'a | RejectedWith js_error

definition resolve :: "'a \<Rightarrow> 'a promise \<Rightarrow> 'a promise" where
  "resolve v p = (case p of Pending \<Rightarrow> Fulfilled v | _ \<Rightarrow> p)"

text \<open>
  The state one call of \<open>checkPort\<close> owns: its socket (the timeout set on it, whether
  it has been destroyed), what it printed, and the promise it returned.
\<close>

record port_check =
  timeout_ms :: nat
  destroyed :: bool
  console :: "console_line list"
  outcome :: "bool promise"

fun on_event :: "port \<Rightarrow> string \<Rightarrow> socket_event \<Rightarrow> port_check \<Rightarrow> port_check" where
  "on_event port name Connect c =
     c\<lparr> console := console c @ [IsReady name port], destroyed := True,
        outcome := resolve True (outcome c) \<rparr>"
| "on_event port name Timeout c =
     c\<lparr> console := console c @ [WaitingFor name port], destroyed := True,
        outcome := resolve False (outcome c) \<rparr>"
| "on_event port name SocketError c =
     c\<lparr> console := console c @ [WaitingFor name port], destroyed := True,
        outcome := resolve False (outcome c) \<rparr>"

text \<open>
  \<open>checkPort\<close>: the executor creates the socket, sets its timeout to 2000 ms,
  registers the three listeners and starts connecting to localhost; nothing in it
  throws for a 16-bit port, and it is given \<open>resolve\<close> only. After that the promise
  changes only when the socket emits an event. The events the socket emits, in order,
  are the environment: a parameter. The empty list is a socket that stays silent.
\<close>

definition checkPort :: "port \<Rightarrow> string \<Rightarrow> socket_event list \<Rightarrow> port_check" where
  "checkPort port name events =
     foldl (\<lambda>c ev. on_event port name ev c)
       \<lparr> timeout_ms = 2000, destroyed = False, console = [], outcome = Pending \<rparr>
       events"

subsection \<open>\<open>waitForServices\<close>\<close>

text \<open>
  How an async function ends: it returns a value, throws, or never settles because
  it awaits a promise that stays pending. A JavaScript function that runs off its
  end returns \<open>undefined\<close>, here \<open>None\<close>.
\<close>

datatype 'a completion = Returns 'a | Throws js_error | NeverSettles

text \<open>
  The network as the launcher sees it: the events of the socket opened in attempt
  number \<open>k\<close> for a port.
\<close>

type_synonym network = "nat \<Rightarrow> port \<Rightarrow> socket_event list"

record wait_run =
  returned :: "bool option completion"
  attempts_made :: nat
  delays_taken :: nat

definition maxAttempts :: nat where
  "maxAttempts = 30"

function wait_loop :: "network \<Rightarrow> nat \<Rightarrow> nat \<Rightarrow> wait_run" where
  "wait_loop net attempts delays =
     (if attempts < maxAttempts then
        (case outcome (checkPort 3000 ''Vite Dev Server'' (net (Suc attempts) 3000)) of
           Pending \<Rightarrow> \<lparr> returned = NeverSettles, attempts_made = Suc attempts, delays_taken = delays \<rparr>
         | RejectedWith e \<Rightarrow> \<lparr> returned = Throws e, attempts_made = Suc attempts, delays_taken = delays \<rparr>
         | Fulfilled viteReady \<Rightarrow>
             (case outcome (checkPort 5001 ''Python API'' (net (Suc attempts) 5001)) of
                Pending \<Rightarrow> \<lparr> returned = NeverSettles, attempts_made = Suc attempts, delays_taken = delays \<rparr>
              | RejectedWith e \<Rightarrow> \<lparr> returned = Throws e, attempts_made = Suc attempts, delays_taken = delays \<rparr>
              | Fulfilled apiReady \<Rightarrow>
                  if viteReady \<and> apiReady
                  then \<lparr> returned = Returns (Some True), attempts_made = Suc attempts, delays_taken = delays \<rparr>
                  else if Suc attempts \<ge> maxAttempts
                  then \<lparr> returned = Returns (Some False), attempts_made = Suc attempts, delays_taken = delays \<rparr>
                  else wait_loop net (Suc attempts) (Suc delays)))
      else \<lparr> returned = Returns None, attempts_made = attempts, delays_taken = delays \<rparr>)"
  by pat_completeness auto
termination
  by (relation "measure (\<lambda>(net, attempts, delays). maxAttempts - attempts)") auto

definition waitForServices :: "network \<Rightarrow> wait_run" where
  "waitForServices net = wait_loop net 0 0"

subsection \<open>\<open>startElectron\<close>\<close>

text \<open>
  What becomes of the spawned Electron process, as far as the launcher listens:
  it closes with an exit code (\<open>None\<close> when a signal ended it), or spawning fails.
\<close>

datatype child_event = Closed "nat option" | SpawnError

datatype process_state = Running | Exited "nat option"

record launch =
  spawned :: bool
  process :: process_state

text \<open>
  \<open>startElectron\<close>: \<open>process.exit\<close> ends the process at once, so nothing after it
  runs. A value that is not \<open>true\<close> (\<open>false\<close> or \<open>undefined\<close>) takes the exit branch.
  An error thrown by \<open>waitForServices\<close> is printed by the \<open>catch\<close> at the call.
\<close>

definition startElectron :: "network \<Rightarrow> child_event option \<Rightarrow> launch" where
  "startElectron net child =
     (case returned (waitForServices net) of
        NeverSettles \<Rightarrow> \<lparr> spawned = False, process = Running \<rparr>
      | Throws e \<Rightarrow> \<lparr> spawned = False, process = Running \<rparr>
      | Returns servicesReady \<Rightarrow>
          if servicesReady \<noteq> Some True
          then \<lparr> spawned = False, process = Exited (Some 1) \<rparr>
          else \<lparr> spawned = True,
                 process =
                   (case child of
                      None \<Rightarrow> Running
                    | Some (Closed code) \<Rightarrow> Exited code
                    | Some SpawnError \<Rightarrow> Exited (Some 1)) \<rparr>)"

text \<open>A port accepts connections in an attempt when the socket's first event is \<open>connect\<close>.\<close>

definition accepts :: "network \<Rightarrow> nat \<Rightarrow> port \<Rightarrow> bool" where
  "accepts net k p = (case net k p of Connect # _ \<Rightarrow> True | _ \<Rightarrow> False)"

definition services_ready :: "network \<Rightarrow> nat \<Rightarrow> bool" where
  "services_ready net k = (accepts net k 3000 \<and> accepts net k 5001)"

section \<open>The risk analysis and download-monitoring engine\<close>

text \<open>
  The engine (the analyzer and monitor modules the README files list) is not among
  the source files at hand. Every definition of this section is modelled from the
  specification, section by section, and says so.
\<close>

subsection \<open>Data model\<close>

text \<open>
  Modelled from the spec: the Target (data model), which the absent analyzer module
  defines: its kind, its raw identifier (a path or a URL string) and the declared
  type, if any. File contents are bytes.
\<close>

type_synonym byte = "8 word"

type_synonym digest = "256 word"

datatype kind = File | Url

record target =
  kind :: kind
  raw :: string
  declared :: "string option"

text \<open>
  Modelled from the spec: the Fingerprint (data model). For a file it is a
  cryptographic content digest plus the size, for a URL the hash of the normalized
  string. The digest is 256 bits wide, the width the specification gives as example.
\<close>

datatype fingerprint = FileFingerprint digest nat | UrlFingerprint digest

text \<open>
  Modelled from the spec: Signal, risk level and Verdict (data model). A Verdict
  computed after a read failure has no Fingerprint.
\<close>

record signal =
  signal_name :: string
  severity :: int
  reason :: string

datatype level = Safe | Suspicious | Dangerous | Unknown

record verdict =
  fingerprint_of :: "fingerprint option"
  level :: level
  signals :: "signal list"
  computed_at :: nat
  sourceRemote :: bool

text \<open>
  Modelled from the spec: ProviderConfig and the settings the configuration source
  supplies (external interfaces). The numeric thresholds are left open by the
  specification and are parameters here.
\<close>

record provider =
  provider_name :: string
  enabled :: bool
  credential :: string
  base_endpoint :: string
  call_timeout :: nat

record config =
  providers :: "provider list"
  remote_enabled :: bool
  danger_threshold :: int
  suspicious_threshold :: int
  cache_ttl :: nat
  cache_capacity :: nat

text \<open>
  Modelled from the spec: the reputation provider wire contract (external
  interfaces). A request is addressed to a provider's endpoint and carries the
  provider's auth header and either a hash digest or a normalized URL string.
\<close>

datatype payload = HashDigest digest | NormalizedUrl string

record request =
  to_endpoint :: string
  auth_header :: string
  carries :: payload

datatype provider_error = ProviderUnavailable | ProviderTimeout | ProviderAuthError

datatype io_error = IoError

text \<open>
  Modelled from the spec: the collaborators of the engine (system overview and
  external interfaces), none of which is among the sources: the file system (\<open>None\<close> for a file that cannot be
  read), the hash function, URL normalization, the rules of the Heuristic Scorer
  (given the Target and, for a readable file, its content) and the behaviour of the
  reputation providers (an answer later than the provider's timeout is
  \<open>ProviderTimeout\<close>).
\<close>

record world =
  files :: "string \<Rightarrow> byte list option"
  hash :: "byte list \<Rightarrow> digest"
  normalize :: "string \<Rightarrow> string"
  score :: "target \<Rightarrow> byte list option \<Rightarrow> signal list"
  respond :: "provider \<Rightarrow> payload \<Rightarrow> provider_error + signal list"

subsection \<open>Fingerprinter\<close>

text \<open>
  Modelled from the spec: the Fingerprinter (component design, 4.1), which is not
  among the sources. A file's content goes through the hash and its size is recorded
  alongside; a URL is normalized and the bytes of the result are hashed; an
  unreadable file fails with \<open>IoError\<close>.
\<close>

definition file_fingerprint :: "(byte list \<Rightarrow> digest) \<Rightarrow> byte list \<Rightarrow> fingerprint" where
  "file_fingerprint h content = FileFingerprint (h content) (length content)"

definition url_fingerprint ::
  "(byte list \<Rightarrow> digest) \<Rightarrow> (string \<Rightarrow> string) \<Rightarrow> string \<Rightarrow> fingerprint" where
  "url_fingerprint h norm url = UrlFingerprint (h (map (\<lambda>c. of_nat (of_char c)) (norm url)))"

definition fingerprint :: "world \<Rightarrow> target \<Rightarrow> io_error + fingerprint" where
  "fingerprint w t =
     (case kind t of
        File \<Rightarrow>
          (case files w (raw t) of
             None \<Rightarrow> Inl IoError
           | Some content \<Rightarrow> Inr (file_fingerprint (hash w) content))
      | Url \<Rightarrow> Inr (url_fingerprint (hash w) (normalize w) (raw t)))"

subsection \<open>Risk level\<close>

text \<open>
  Modelled from the spec: step 5 of the Risk Engine's algorithm (4.3), which is not
  among the sources. The cases are tried in the order the specification lists them.
  The specification names no level for an empty collection when remote data
  arrived; \<open>Unknown\<close> being kept for no Signals and no remote data, that case is \<open>Safe\<close>.
\<close>

definition risk_level :: "config \<Rightarrow> signal list \<Rightarrow> bool \<Rightarrow> level" where
  "risk_level cfg sigs remote_data =
     (if \<exists>s \<in> set sigs. severity s \<ge> danger_threshold cfg then Dangerous
      else if \<exists>s \<in> set sigs. severity s \<ge> suspicious_threshold cfg then Suspicious
      else if sigs \<noteq> [] then Safe
      else if remote_data then Safe
      else Unknown)"

text \<open>
  Modelled from the spec: the tie-break rule of 4.3 and the monotonicity property of
  section 8, which speak of the level the highest severity gives and of one level
  being lower than another. The order is no judgement, then safe, suspicious,
  dangerous.
\<close>

definition level_of_severity :: "config \<Rightarrow> int \<Rightarrow> level" where
  "level_of_severity cfg x =
     (if x \<ge> danger_threshold cfg then Dangerous
      else if x \<ge> suspicious_threshold cfg then Suspicious
      else Safe)"

fun rank :: "level \<Rightarrow> nat" where
  "rank Unknown = 0"
| "rank Safe = 1"
| "rank Suspicious = 2"
| "rank Dangerous = 3"

subsection \<open>Reputation Client\<close>

text \<open>
  Modelled from the spec: the Reputation Client (4.4) and the wire contract, which
  are not among the sources. Every enabled provider is sent one request; the
  Signals of the providers that answer are merged and a provider that fails is left
  out; the query fails only when no provider answers.
\<close>

definition request_for :: "payload \<Rightarrow> provider \<Rightarrow> request" where
  "request_for what p =
     \<lparr> to_endpoint = base_endpoint p, auth_header = credential p, carries = what \<rparr>"

definition query :: "world \<Rightarrow> config \<Rightarrow> payload \<Rightarrow> request list \<times> (provider_error + signal list)" where
  "query w cfg what =
     (let asked = filter enabled (providers cfg);
          answers = map (\<lambda>p. respond w p what) asked
      in (map (request_for what) asked,
          if \<exists>a \<in> set answers. isl a = False
          then Inr (concat (map (\<lambda>a. case a of Inr sigs \<Rightarrow> sigs | Inl e \<Rightarrow> []) answers))
          else Inl (case answers of Inl e # rest \<Rightarrow> e | _ \<Rightarrow> ProviderUnavailable)))"

text \<open>
  Modelled from the spec: the payload of the wire contract, which the absent
  Reputation Client builds. What a Target discloses to a provider is the digest of a
  file's Fingerprint, or the normalized URL string.
\<close>

definition disclosed :: "world \<Rightarrow> target \<Rightarrow> fingerprint \<Rightarrow> payload" where
  "disclosed w t f =
     (case f of
        FileFingerprint d n \<Rightarrow> HashDigest d
      | UrlFingerprint d \<Rightarrow> NormalizedUrl (normalize w (raw t)))"

subsection \<open>Verdict Cache\<close>

text \<open>
  Modelled from the spec: the Verdict Cache (4.5), which is not among the sources.
  The entries are kept most recently used first. A read finds an entry only while it
  is younger than the time-to-live, and moves it to the front; a write puts the
  entry in front and drops the least recently used ones beyond the capacity.
\<close>

record entry =
  cached :: verdict
  stored_at :: nat

type_synonym cache = "(fingerprint \<times> entry) list"

definition cache_get :: "nat \<Rightarrow> nat \<Rightarrow> fingerprint \<Rightarrow> cache \<Rightarrow> verdict option \<times> cache" where
  "cache_get ttl now f c =
     (case map_of c f of
        None \<Rightarrow> (None, c)
      | Some e \<Rightarrow>
          if now < stored_at e + ttl
          then (Some (cached e), (f, e) # filter (\<lambda>(k, e'). k \<noteq> f) c)
          else (None, c))"

definition cache_put :: "nat \<Rightarrow> nat \<Rightarrow> fingerprint \<Rightarrow> verdict \<Rightarrow> cache \<Rightarrow> cache" where
  "cache_put capacity now f v c =
     take capacity ((f, \<lparr> cached = v, stored_at = now \<rparr>) # filter (\<lambda>(k, e'). k \<noteq> f) c)"

subsection \<open>Risk Engine\<close>

text \<open>
  Modelled from the spec: the state of the absent Risk Engine (4.3 and section 8),
  namely the cache, and what a test double of the Reputation Client
  would record: how often the client was invoked and every request that left the
  machine, and the number of lookups that were attempted and failed. The Signal of
  step 1 that explains a read failure has a severity of 0.
\<close>

record engine =
  cache_of :: cache
  client_calls :: nat
  outbound :: "request list"
  failed_lookups :: nat

definition read_failure :: signal where
  "read_failure =
     \<lparr> signal_name = ''read-failure'', severity = 0,
       reason = ''The file could not be read'' \<rparr>"

text \<open>
  Modelled from the spec: step 4 of the algorithm (4.3). The client is invoked when
  remote reputation is enabled and a provider is configured; its Signals are merged
  on success, and on failure the analysis goes on with the local Signals and the
  failed attempt is recorded.
\<close>

definition remote_lookup ::
  "config \<Rightarrow> world \<Rightarrow> payload \<Rightarrow> engine \<Rightarrow> (signal list \<times> bool) \<times> engine" where
  "remote_lookup cfg w what s =
     (if remote_enabled cfg \<and> filter enabled (providers cfg) \<noteq> []
      then
        (case query w cfg what of
           (sent, answer) \<Rightarrow>
             (let s' = s\<lparr> client_calls := client_calls s + 1, outbound := outbound s @ sent \<rparr>
              in case answer of
                   Inr sigs \<Rightarrow> ((sigs, True), s')
                 | Inl e \<Rightarrow> (([], False), s'\<lparr> failed_lookups := failed_lookups s' + 1 \<rparr>)))
      else (([], False), s))"

text \<open>
  Modelled from the spec: \<open>analyze\<close>, steps 1 to 6 of the algorithm (4.3), at the time
  \<open>now\<close>. A read failure gives an \<open>Unknown\<close> Verdict with the Signal that explains it and
  touches nothing; a cached, unexpired Verdict is returned as it is; otherwise the
  Signals of the scorer and of the providers are collected, the level is computed,
  and the Verdict is cached and returned.
\<close>

definition analyze :: "config \<Rightarrow> world \<Rightarrow> nat \<Rightarrow> target \<Rightarrow> engine \<Rightarrow> verdict \<times> engine" where
  "analyze cfg w now t s =
     (case fingerprint w t of
        Inl err \<Rightarrow>
          (\<lparr> fingerprint_of = None, level = Unknown, signals = [read_failure],
             computed_at = now, sourceRemote = False \<rparr>, s)
      | Inr f \<Rightarrow>
          (case cache_get (cache_ttl cfg) now f (cache_of s) of
             (Some v, c) \<Rightarrow> (v, s\<lparr> cache_of := c \<rparr>)
           | (None, c) \<Rightarrow>
               (case remote_lookup cfg w (disclosed w t f) s of
                  ((remote, contributed), s') \<Rightarrow>
                    (let collected = score w t (files w (raw t)) @ remote;
                         v = \<lparr> fingerprint_of = Some f,
                               level = risk_level cfg collected contributed,
                               signals = collected, computed_at = now,
                               sourceRemote = contributed \<rparr>
                     in (v, s'\<lparr> cache_of :=
                                 cache_put (cache_capacity cfg) now f v (cache_of s') \<rparr>)))))"

text \<open>
  Modelled from the spec: the life of the absent Risk Engine. It starts with an
  empty cache and nothing sent, and from then on its state changes only through
  \<open>analyze\<close>, under the configuration snapshot it was built with; the file system and
  the providers may differ from one call to the next.
\<close>

definition fresh_engine :: engine where
  "fresh_engine = \<lparr> cache_of = [], client_calls = 0, outbound = [], failed_lookups = 0 \<rparr>"

fun replay :: "config \<Rightarrow> (world \<times> nat \<times> target) list \<Rightarrow> engine \<Rightarrow> engine" where
  "replay cfg [] s = s"
| "replay cfg ((w, now, t) # rest) s = replay cfg rest (snd (analyze cfg w now t s))"

text \<open>
  Modelled from the spec: the invariant of the Verdict (data model), that its level
  is the one step 5 computes from its Signals and its source flag, said of every
  Verdict in the cache.
\<close>

definition coherent :: "config \<Rightarrow> engine \<Rightarrow> bool" where
  "coherent cfg s =
     list_all (\<lambda>(f, e). level (cached e) = risk_level cfg (signals (cached e)) (sourceRemote (cached e)))
       (cache_of s)"

subsection \<open>Directory Watcher\<close>








subsection \<open>An example installation\<close>

text \<open>
  A file system with one downloaded file and a copy of it under another name, a hash
  that is good enough to compute with, one scoring rule, one reputation provider
  that flags whatever it is asked about.
\<close>

definition toy_hash :: "byte list \<Rightarrow> digest" where
  "toy_hash content = of_nat (length content)"

definition invoice :: target where
  "invoice = \<lparr> kind = File, raw = ''Downloads/invoice.pdf.exe'', declared = Some ''exe'' \<rparr>"

definition invoice_copy :: target where
  "invoice_copy = \<lparr> kind = File, raw = ''Desktop/setup.exe'', declared = None \<rparr>"

definition vanished :: target where
  "vanished = \<lparr> kind = File, raw = ''Downloads/gone.tmp'', declared = None \<rparr>"

definition double_extension :: signal where
  "double_extension =
     \<lparr> signal_name = ''double-extension'', severity = 50,
       reason = ''The name ends in two extensions'' \<rparr>"

definition flagged :: signal where
  "flagged =
     \<lparr> signal_name = ''provider-flagged'', severity = 90,
       reason = ''A reputation provider knows this file as malware'' \<rparr>"

definition demo_world :: world where
  "demo_world =
     \<lparr> files = (\<lambda>p. if p = ''Downloads/invoice.pdf.exe'' \<or> p = ''Desktop/setup.exe''
                    then Some [77, 90, 144] else None),
       hash = toy_hash,
       normalize = (\<lambda>u. u),
       score = (\<lambda>t content. if raw t = ''Downloads/invoice.pdf.exe'' then [double_extension] else []),
       respond = (\<lambda>p what. Inr [flagged]) \<rparr>"

definition reputation_service :: provider where
  "reputation_service =
     \<lparr> provider_name = ''reputation'', enabled = True, credential = ''x-apikey: k'',
       base_endpoint = ''https://reputation.example/api'', call_timeout = 5 \<rparr>"

definition demo_config :: config where
  "demo_config =
     \<lparr> providers = [reputation_service], remote_enabled = True, danger_threshold = 80,
       suspicious_threshold = 40, cache_ttl = 3600, cache_capacity = 16 \<rparr>"

section \<open>Properties of the Electron main process\<close>

declare show_nat.simps [simp del]

text \<open>
  The rendering of a number is a non-empty string of decimal digits whose value is
  the number, without a leading zero except for zero itself.
\<close>

lemma digit_value_nth: "k < 10 \<Longrightarrow> digit_value (''0123456789'' ! k) = k"
proof -
  assume "k < 10"
  then have "k = 0 \<or> k = 1 \<or> k = 2 \<or> k = 3 \<or> k = 4 \<or> k = 5 \<or> k = 6 \<or> k = 7 \<or> k = 8 \<or> k = 9"
    by arith
  then show ?thesis
    by (elim disjE) (simp_all add: digit_value_def)
qed

lemma digit_value_digit_char: "digit_value (digit_char d) = d mod 10"
  by (simp add: digit_char_def digit_value_nth)

lemma decimal_value_snoc: "decimal_value (ds @ [c]) = 10 * decimal_value ds + digit_value c"
  by (simp add: decimal_value_def)

lemma decimal_value_show_nat: "decimal_value (show_nat n) = n"
proof (induction n rule: show_nat.induct)
  case (1 n)
  show ?case
  proof (cases "n < 10")
    case True
    then show ?thesis
      by (subst show_nat.simps) (simp add: decimal_value_def digit_value_digit_char)
  next
    case False
    then have "decimal_value (show_nat (n div 10)) = n div 10"
      using 1 by simp
    with False show ?thesis
      by (subst show_nat.simps) (simp add: decimal_value_snoc digit_value_digit_char)
  qed
qed

lemma digit_char_digit: "digit_char d \<in> set ''0123456789''"
  unfolding digit_char_def by (rule nth_mem) simp

lemma show_nat_digits: "set (show_nat n) \<subseteq> set ''0123456789''"
proof (induction n rule: show_nat.induct)
  case (1 n)
  show ?case
  proof (cases "n < 10")
    case True
    then show ?thesis
      using digit_char_digit [of n] by (subst show_nat.simps) simp
  next
    case False
    then show ?thesis
      using 1 digit_char_digit [of n] by (subst show_nat.simps) simp
  qed
qed

lemma show_nat_nonempty: "show_nat n \<noteq> []"
  by (subst show_nat.simps) simp


lemma digit_char_zero: "digit_char d = CHR ''0'' \<longleftrightarrow> d mod 10 = 0"
proof
  assume "digit_char d = CHR ''0''"
  then have "digit_value (digit_char d) = digit_value CHR ''0''"
    by simp
  then show "d mod 10 = 0"
    by (simp add: digit_value_digit_char) (simp add: digit_value_def)
next
  assume "d mod 10 = 0"
  then show "digit_char d = CHR ''0''"
    by (simp add: digit_char_def)
qed

lemma show_nat_leading: "hd (show_nat n) = CHR ''0'' \<longleftrightarrow> n = 0"
proof (induction n rule: show_nat.induct)
  case (1 n)
  show ?case
  proof (cases "n < 10")
    case True
    then show ?thesis
      by (subst show_nat.simps) (simp add: digit_char_zero)
  next
    case False
    then have "hd (show_nat (n div 10)) = CHR ''0'' \<longleftrightarrow> n div 10 = 0"
      using 1 by simp
    with False show ?thesis
      by (subst show_nat.simps) (simp add: show_nat_nonempty)
  qed
qed

text \<open>
  C10. \<open>makeApiCall\<close> returns a value exactly when \<open>fetch\<close> fulfils with a response
  whose status is ok and whose body parses, and the value is then the parsed body.
  A response that is not ok throws an \<open>Error\<close> whose message is \<open>API call failed: \<close>
  followed by the status code in decimal: a non-empty string of digits whose value is
  the status, with no leading zero. A rejection of \<open>fetch\<close> and a failure of \<open>json()\<close>
  are thrown on to the caller unchanged.
\<close>

theorem makeApiCall_returns_iff_ok:
  "(makeApiCall fetch endpoint options = Inr v \<longleftrightarrow>
      (\<exists>r. fetch (PYTHON_API_URL @ endpoint) (fetch_init options) = FetchFulfilled r
           \<and> ok r \<and> json_body r = Inr v))
   \<and> (\<forall>r. fetch (PYTHON_API_URL @ endpoint) (fetch_init options) = FetchFulfilled r \<and> \<not> ok r
        \<longrightarrow> makeApiCall fetch endpoint options
              = Inl (Error (''API call failed: '' @ show_nat (status r)))
          \<and> show_nat (status r) \<noteq> []
          \<and> set (show_nat (status r)) \<subseteq> set ''0123456789''
          \<and> decimal_value (show_nat (status r)) = status r
          \<and> (hd (show_nat (status r)) = CHR ''0'' \<longleftrightarrow> status r = 0))
   \<and> (\<forall>e. fetch (PYTHON_API_URL @ endpoint) (fetch_init options) = FetchRejected e
        \<longrightarrow> makeApiCall fetch endpoint options = Inl e)
   \<and> (\<forall>r e. fetch (PYTHON_API_URL @ endpoint) (fetch_init options) = FetchFulfilled r
          \<and> ok r \<and> json_body r = Inl e
        \<longrightarrow> makeApiCall fetch endpoint options = Inl e)"
  using show_nat_digits show_nat_nonempty decimal_value_show_nat show_nat_leading
  by (auto simp: makeApiCall_def split: fetch_result.splits)

text \<open>
  The theorem at five servers: two that answer with an error status, 404 and 500,
  one that answers 200 with a JSON body, one that refuses the connection, and one
  that answers 200 with a body that does not parse.
\<close>

theorem makeApiCall_returns_iff_ok_witness:
  "makeApiCall (\<lambda>url init. FetchFulfilled \<lparr> ok = False, status = 404, json_body = Inr JNull \<rparr>)
       ''/monitor/status'' no_options = Inl (Error ''API call failed: 404'')
   \<and> decimal_value ''404'' = 404
   \<and> makeApiCall (\<lambda>url init. FetchFulfilled \<lparr> ok = False, status = 500, json_body = Inr JNull \<rparr>)
       ''/monitor/start'' post_options = Inl (Error ''API call failed: 500'')
   \<and> decimal_value ''500'' = 500
   \<and> makeApiCall (\<lambda>url init. FetchFulfilled
          \<lparr> ok = True, status = 200, json_body = Inr (JObj [(''alerts'', JArr [])]) \<rparr>)
       ''/monitor/alerts'' no_options = Inr (JObj [(''alerts'', JArr [])])
   \<and> makeApiCall (\<lambda>url init. FetchRejected (Error ''connect ECONNREFUSED 127.0.0.1:5001''))
       ''/ai/status'' no_options = Inl (Error ''connect ECONNREFUSED 127.0.0.1:5001'')
   \<and> makeApiCall (\<lambda>url init. FetchFulfilled
          \<lparr> ok = True, status = 200, json_body = Inl (Error ''invalid json response body'') \<rparr>)
       ''/ai/status'' no_options = Inl (Error ''invalid json response body'')"
  using makeApiCall_returns_iff_ok
          [of "\<lambda>url init. FetchFulfilled \<lparr> ok = False, status = 404, json_body = Inr JNull \<rparr>"
              "''/monitor/status''" no_options JNull]
        makeApiCall_returns_iff_ok
          [of "\<lambda>url init. FetchFulfilled \<lparr> ok = False, status = 500, json_body = Inr JNull \<rparr>"
              "''/monitor/start''" post_options JNull]
        makeApiCall_returns_iff_ok
          [of "\<lambda>url init. FetchFulfilled
                 \<lparr> ok = True, status = 200, json_body = Inr (JObj [(''alerts'', JArr [])]) \<rparr>"
              "''/monitor/alerts''" no_options "JObj [(''alerts'', JArr [])]"]
        makeApiCall_returns_iff_ok
          [of "\<lambda>url init. FetchRejected (Error ''connect ECONNREFUSED 127.0.0.1:5001'')"
              "''/ai/status''" no_options JNull]
        makeApiCall_returns_iff_ok
          [of "\<lambda>url init. FetchFulfilled
                 \<lparr> ok = True, status = 200, json_body = Inl (Error ''invalid json response body'') \<rparr>"
              "''/ai/status''" no_options JNull]
  by (simp add: show_nat.simps digit_char_def)

lemmas handler_defs = start_monitoring_def stop_monitoring_def get_monitoring_status_def
  update_monitoring_settings_def get_alerts_def start_ai_def stop_ai_def get_ai_status_def
  chat_with_ai_def

text \<open>
  C1. Every handler exposed to the renderer fulfils its promise, whatever \<open>fetch\<close> and
  \<open>JSON.stringify\<close> do: it never rejects with the error. When the underlying API call
  succeeds the handler returns its value; when it fails with an error the handler
  returns an object built from literals and the error's message string alone:
  \<open>{success: false, message}\<close> for the six action handlers, the status objects with an
  \<open>error\<close> string for the two status handlers, and \<open>{alerts: []}\<close> for \<open>get-alerts\<close>.
\<close>

theorem ipc_handlers_never_reject:
  "(\<exists>v. invoke fetch stringify ch arg = Inr v)
   \<and> (\<forall>v. api_call fetch stringify ch arg = Inr v \<longrightarrow> invoke fetch stringify ch arg = Inr v)
   \<and> (\<forall>e. api_call fetch stringify ch arg = Inl e \<longrightarrow>
         invoke fetch stringify ch arg =
           Inr (case ch of
                  GetMonitoringStatus \<Rightarrow>
                    JObj [(''isRunning'', JBool False), (''lastActivity'', JNull),
                          (''alerts'', JArr []), (''error'', JStr (message e))]
                | GetAIStatus \<Rightarrow>
                    JObj [(''isActive'', JBool False), (''contextMemorySize'', JNum 0),
                          (''conversationHistorySize'', JNum 0), (''error'', JStr (message e))]
                | GetAlerts \<Rightarrow> JObj [(''alerts'', JArr [])]
                | _ \<Rightarrow> JObj [(''success'', JBool False), (''message'', JStr (message e))]))"
  by (cases ch) (auto simp: handler_defs split: sum.splits)

text \<open>
  The theorem with the Python API down, on a status channel, and with a settings value
  that \<open>JSON.stringify\<close> refuses.
\<close>

theorem ipc_handlers_never_reject_witness:
  "invoke (\<lambda>url init. FetchRejected (Error ''connect ECONNREFUSED 127.0.0.1:5001''))
      (\<lambda>v. Inr ''{}'') GetAIStatus JNull
     = Inr (JObj [(''isActive'', JBool False), (''contextMemorySize'', JNum 0),
                  (''conversationHistorySize'', JNum 0),
                  (''error'', JStr ''connect ECONNREFUSED 127.0.0.1:5001'')])
   \<and> invoke (\<lambda>url init. FetchFulfilled \<lparr> ok = True, status = 200, json_body = Inr JNull \<rparr>)
      (\<lambda>v. Inl (Error ''Converting circular structure to JSON''))
      UpdateMonitoringSettings (JObj [])
     = Inr (JObj [(''success'', JBool False),
                  (''message'', JStr ''Converting circular structure to JSON'')])"
  using ipc_handlers_never_reject
          [of "\<lambda>url init. FetchRejected (Error ''connect ECONNREFUSED 127.0.0.1:5001'')"
              "\<lambda>v. Inr ''{}''" GetAIStatus JNull]
        ipc_handlers_never_reject
          [of "\<lambda>url init. FetchFulfilled \<lparr> ok = True, status = 200, json_body = Inr JNull \<rparr>"
              "\<lambda>v. Inl (Error ''Converting circular structure to JSON'')"
              UpdateMonitoringSettings "JObj []"]
  by (simp add: makeApiCall_def)

section \<open>Properties of the launcher\<close>

lemma resolve_settled [simp]: "resolve v (Fulfilled b) = Fulfilled b"
  by (simp add: resolve_def)

lemma on_event_settled:
  "outcome c = Fulfilled b \<Longrightarrow> outcome (on_event port name ev c) = Fulfilled b"
  by (cases ev) simp_all

lemma foldl_on_event_settled:
  "outcome c = Fulfilled b \<Longrightarrow>
   outcome (foldl (\<lambda>c ev. on_event port name ev c) c evs) = Fulfilled b"
  by (induction evs arbitrary: c) (simp_all add: on_event_settled)

lemma foldl_on_event_timeout:
  "timeout_ms (foldl (\<lambda>c ev. on_event port name ev c) c evs) = timeout_ms c"
proof (induction evs arbitrary: c)
  case Nil
  show ?case by simp
next
  case (Cons ev evs)
  show ?case by (cases ev) (simp_all add: Cons.IH)
qed

lemma checkPort_Nil: "outcome (checkPort port name []) = Pending"
  by (simp add: checkPort_def)

lemma checkPort_Cons: "outcome (checkPort port name (ev # evs)) = Fulfilled (ev = Connect)"
  unfolding checkPort_def by (cases ev) (simp_all add: foldl_on_event_settled resolve_def)

lemma checkPort_timeout: "timeout_ms (checkPort port name events) = 2000"
  by (simp add: checkPort_def foldl_on_event_timeout)

text \<open>
  C8. For every port and service name the promise of \<open>checkPort\<close> is never rejected.
  Once the socket, whose timeout is 2000 ms, emits any of its events the promise is
  fulfilled with a boolean, decided by the first event: \<open>true\<close> exactly when that event
  is \<open>connect\<close>, \<open>false\<close> when it is \<open>error\<close> or \<open>timeout\<close>. Later events change nothing.
  It is pending only while the socket has emitted nothing.
\<close>

theorem checkPort_resolves_boolean:
  "(\<forall>e. outcome (checkPort port name events) \<noteq> RejectedWith e)
   \<and> (events \<noteq> [] \<longrightarrow> outcome (checkPort port name events) = Fulfilled (hd events = Connect))
   \<and> (events = [] \<longrightarrow> outcome (checkPort port name events) = Pending)
   \<and> timeout_ms (checkPort port name events) = 2000"
  by (cases events) (simp_all add: checkPort_Nil checkPort_Cons checkPort_timeout)

theorem checkPort_resolves_boolean_witness:
  "outcome (checkPort 5001 ''Python API'' [Connect]) = Fulfilled True
   \<and> outcome (checkPort 5001 ''Python API'' [SocketError]) = Fulfilled False
   \<and> outcome (checkPort 3000 ''Vite Dev Server'' [Timeout]) = Fulfilled False
   \<and> outcome (checkPort 3000 ''Vite Dev Server'' []) = Pending"
  using checkPort_resolves_boolean [of 5001 "''Python API''" "[Connect]"]
        checkPort_resolves_boolean [of 5001 "''Python API''" "[SocketError]"]
        checkPort_resolves_boolean [of 3000 "''Vite Dev Server''" "[Timeout]"]
        checkPort_resolves_boolean [of 3000 "''Vite Dev Server''" "[]"]
  by simp

lemma checkPort_settles:
  "net k p \<noteq> [] \<Longrightarrow> outcome (checkPort p name (net k p)) = Fulfilled (accepts net k p)"
  by (cases "net k p"; simp add: checkPort_Cons accepts_def split: socket_event.splits)

declare wait_loop.simps [simp del]

text \<open>
  The loop from \<open>a\<close> attempts made: it stops at the first later attempt that finds both
  services, or at the last attempt allowed, and has slept once between attempts.
\<close>

lemma wait_loop_spec:
  assumes settle: "\<forall>k p. net k p \<noteq> []"
  shows "a < maxAttempts \<Longrightarrow>
     \<exists>n. a < n \<and> n \<le> maxAttempts
        \<and> (\<forall>j. a < j \<and> j < n \<longrightarrow> \<not> services_ready net j)
        \<and> (services_ready net n \<or> n = maxAttempts)
        \<and> wait_loop net a d =
            \<lparr> returned = Returns (Some (services_ready net n)), attempts_made = n,
              delays_taken = d + (n - a - 1) \<rparr>"
proof (induction k \<equiv> "maxAttempts - a" arbitrary: a d)
  case 0
  then show ?case by simp
next
  case (Suc k)
  have vite: "outcome (checkPort 3000 ''Vite Dev Server'' (net (Suc a) 3000))
      = Fulfilled (accepts net (Suc a) 3000)"
    using settle by (simp add: checkPort_settles)
  have api: "outcome (checkPort 5001 ''Python API'' (net (Suc a) 5001))
      = Fulfilled (accepts net (Suc a) 5001)"
    using settle by (simp add: checkPort_settles)
  consider (ready) "services_ready net (Suc a)"
    | (last) "\<not> services_ready net (Suc a)" "Suc a \<ge> maxAttempts"
    | (again) "\<not> services_ready net (Suc a)" "Suc a < maxAttempts"
    by linarith
  then show ?case
  proof cases
    case ready
    have "wait_loop net a d =
        \<lparr> returned = Returns (Some True), attempts_made = Suc a, delays_taken = d \<rparr>"
      using ready Suc.prems by (subst wait_loop.simps) (simp add: vite api services_ready_def)
    with ready Suc.prems show ?thesis
      by (intro exI [of _ "Suc a"]) auto
  next
    case last
    have "wait_loop net a d =
        \<lparr> returned = Returns (Some False), attempts_made = Suc a, delays_taken = d \<rparr>"
      using last Suc.prems by (subst wait_loop.simps) (simp add: vite api services_ready_def)
    with last Suc.prems show ?thesis
      by (intro exI [of _ "Suc a"]) auto
  next
    case again
    have step: "wait_loop net a d = wait_loop net (Suc a) (Suc d)"
      using again Suc.prems by (subst wait_loop.simps) (auto simp: vite api services_ready_def)
    have "k = maxAttempts - Suc a"
      using Suc.hyps(2) by simp
    from Suc.hyps(1) [OF this again(2), of "Suc d"]
    obtain n where n: "Suc a < n" "n \<le> maxAttempts"
      "\<forall>j. Suc a < j \<and> j < n \<longrightarrow> \<not> services_ready net j"
      "services_ready net n \<or> n = maxAttempts"
      "wait_loop net (Suc a) (Suc d) =
         \<lparr> returned = Returns (Some (services_ready net n)), attempts_made = n,
           delays_taken = Suc d + (n - Suc a - 1) \<rparr>"
      by blast
    have notyet: "\<forall>j. a < j \<and> j < n \<longrightarrow> \<not> services_ready net j"
    proof (intro allI impI)
      fix j
      assume "a < j \<and> j < n"
      then have "j = Suc a \<or> (Suc a < j \<and> j < n)"
        by linarith
      then show "\<not> services_ready net j"
        using again(1) n(3) by blast
    qed
    have "Suc d + (n - Suc a - 1) = d + (n - a - 1)"
      using n(1) by simp
    with step n notyet show ?thesis
      by (intro exI [of _ n]) auto
  qed
qed

text \<open>
  C9. Provided every port check settles (each socket emits an event), \<open>waitForServices\<close>
  returns after some number \<open>n\<close> of attempts between 1 and 30, having slept 2 seconds
  \<open>n - 1\<close> times. No attempt before \<open>n\<close> found both ports 3000 and 5001 accepting
  connections. It returns \<open>true\<close> when attempt \<open>n\<close> found both, and otherwise \<open>n\<close> is 30
  and it returns \<open>false\<close>. When it returns \<open>false\<close>, \<open>startElectron\<close> exits the process
  with code 1 and has not spawned Electron.
\<close>

theorem waitForServices_terminates:
  assumes "\<forall>k p. net k p \<noteq> []"
  shows "\<exists>n. 1 \<le> n \<and> n \<le> 30
           \<and> waitForServices net =
               \<lparr> returned = Returns (Some (services_ready net n)), attempts_made = n,
                 delays_taken = n - 1 \<rparr>
           \<and> (\<forall>j. 1 \<le> j \<and> j < n \<longrightarrow> \<not> services_ready net j)
           \<and> (services_ready net n \<or> n = 30)
           \<and> (\<not> services_ready net n \<longrightarrow>
                startElectron net child = \<lparr> spawned = False, process = Exited (Some 1) \<rparr>)"
proof -
  have "0 < maxAttempts"
    by (simp add: maxAttempts_def)
  from wait_loop_spec [OF assms this, of 0]
  obtain n where n: "0 < n" "n \<le> maxAttempts"
      "\<forall>j. 0 < j \<and> j < n \<longrightarrow> \<not> services_ready net j"
      "services_ready net n \<or> n = maxAttempts"
      "wait_loop net 0 0 =
         \<lparr> returned = Returns (Some (services_ready net n)), attempts_made = n,
           delays_taken = 0 + (n - 0 - 1) \<rparr>"
    by blast
  have run: "waitForServices net =
      \<lparr> returned = Returns (Some (services_ready net n)), attempts_made = n,
        delays_taken = n - 1 \<rparr>"
    using n(5) by (simp add: waitForServices_def)
  have exit: "\<not> services_ready net n \<longrightarrow>
      startElectron net child = \<lparr> spawned = False, process = Exited (Some 1) \<rparr>"
    by (simp add: startElectron_def run)
  have "\<forall>j. 1 \<le> j \<and> j < n \<longrightarrow> \<not> services_ready net j"
    using n(3) by simp
  with n run exit show ?thesis
    by (intro exI [of _ n]) (simp add: maxAttempts_def)
qed

text \<open>
  The theorem on a machine where the Python API never comes up: 30 attempts, 29
  delays, \<open>false\<close>, exit code 1 and no Electron.
\<close>

theorem waitForServices_terminates_witness:
  "(\<forall>k p. (\<lambda>k p. if p = 5001 then [SocketError] else [Connect]) k p \<noteq> [])
   \<and> waitForServices (\<lambda>k p. if p = 5001 then [SocketError] else [Connect])
       = \<lparr> returned = Returns (Some False), attempts_made = 30, delays_taken = 29 \<rparr>
   \<and> startElectron (\<lambda>k p. if p = 5001 then [SocketError] else [Connect]) None
       = \<lparr> spawned = False, process = Exited (Some 1) \<rparr>"
proof -
  let ?net = "\<lambda>(k::nat) (p::port). if p = 5001 then [SocketError] else [Connect]"
  have settle: "\<forall>k p. ?net k p \<noteq> []"
    by simp
  have never: "\<not> services_ready ?net n" for n
    by (simp add: services_ready_def accepts_def)
  from waitForServices_terminates [OF settle, of None] never
  show ?thesis
    using settle by auto
qed

section \<open>Properties of the risk analysis engine\<close>

lemmas demo_defs = toy_hash_def invoice_def invoice_copy_def vanished_def double_extension_def
  flagged_def demo_world_def reputation_service_def demo_config_def fresh_engine_def

lemmas engine_defs = analyze_def fingerprint_def file_fingerprint_def url_fingerprint_def
  cache_get_def cache_put_def remote_lookup_def query_def request_for_def disclosed_def
  risk_level_def read_failure_def

lemma fp_invoice: "fingerprint demo_world invoice = Inr (FileFingerprint 3 3)"
  by (simp add: demo_defs engine_defs Let_def)

lemma fp_copy: "fingerprint demo_world invoice_copy = Inr (FileFingerprint 3 3)"
  by (simp add: demo_defs engine_defs Let_def)

subsection \<open>Risk level\<close>

lemma risk_level_Dangerous:
  "risk_level cfg sigs r = Dangerous \<longleftrightarrow> (\<exists>s \<in> set sigs. severity s \<ge> danger_threshold cfg)"
  by (simp add: risk_level_def)

lemma risk_level_Suspicious:
  "risk_level cfg sigs r = Suspicious \<longleftrightarrow>
     (\<exists>s \<in> set sigs. severity s \<ge> suspicious_threshold cfg)
     \<and> \<not> (\<exists>s \<in> set sigs. severity s \<ge> danger_threshold cfg)"
  by (simp add: risk_level_def)

lemma risk_level_Safe:
  "risk_level cfg sigs r = Safe \<longleftrightarrow>
     (sigs \<noteq> [] \<or> r)
     \<and> \<not> (\<exists>s \<in> set sigs. severity s \<ge> suspicious_threshold cfg)
     \<and> \<not> (\<exists>s \<in> set sigs. severity s \<ge> danger_threshold cfg)"
  by (auto simp add: risk_level_def)

lemma risk_level_Unknown:
  "risk_level cfg sigs r = Unknown \<longleftrightarrow> sigs = [] \<and> \<not> r"
  by (auto simp add: risk_level_def)

lemma ex_ge_iff_Max:
  "sigs \<noteq> [] \<Longrightarrow> (\<exists>s \<in> set sigs. severity s \<ge> x) \<longleftrightarrow> Max (severity ` set sigs) \<ge> x"
  by (subst Max_ge_iff) auto

lemma risk_level_by_Max:
  "sigs \<noteq> [] \<Longrightarrow> risk_level cfg sigs r = level_of_severity cfg (Max (severity ` set sigs))"
  by (simp add: risk_level_def level_of_severity_def ex_ge_iff_Max)

lemma risk_level_set:
  "set T = set S \<Longrightarrow> risk_level cfg T r = risk_level cfg S r"
  by (cases "S = []") (auto simp: risk_level_def)

text \<open>
  C3. For every collection of Signals \<open>S\<close>, every Signal \<open>s\<close> whose severity is at least
  every severity in \<open>S\<close>, and every collection \<open>T\<close> that holds \<open>s\<close> and the Signals of
  \<open>S\<close>, the level computed for \<open>T\<close> is at least the level computed for \<open>S\<close>, with the
  same remote flag. When \<open>S\<close> is not empty neither level is \<open>Unknown\<close>, so the comparison
  is among safe, suspicious and dangerous.
\<close>

theorem risk_level_monotone:
  assumes "\<forall>t \<in> set S. severity t \<le> severity s" and "set T = insert s (set S)"
  shows "rank (risk_level cfg S r) \<le> rank (risk_level cfg T r)
         \<and> (S \<noteq> [] \<longrightarrow> risk_level cfg S r \<noteq> Unknown \<and> risk_level cfg T r \<noteq> Unknown)"
  using assms(2) by (cases "T = []") (auto simp: risk_level_def)

theorem risk_level_monotone_witness:
  "severity double_extension \<le> severity flagged
   \<and> set [double_extension, flagged] = insert flagged (set [double_extension])
   \<and> rank (risk_level demo_config [double_extension] False)
       \<le> rank (risk_level demo_config [double_extension, flagged] False)
   \<and> risk_level demo_config [double_extension] False = Suspicious
   \<and> risk_level demo_config [double_extension, flagged] False = Dangerous"
proof -
  have h1: "\<forall>t \<in> set [double_extension]. severity t \<le> severity flagged"
    by (simp add: double_extension_def flagged_def)
  have h2: "set [double_extension, flagged] = insert flagged (set [double_extension])"
    by auto
  from risk_level_monotone [OF h1 h2, of demo_config False] h1 h2 show ?thesis
    by (simp add: risk_level_def double_extension_def flagged_def demo_config_def)
qed

subsection \<open>The level of a Verdict\<close>

lemma analyze_unreadable:
  "fingerprint w t = Inl e \<Longrightarrow>
   analyze cfg w now t s =
     (\<lparr> fingerprint_of = None, level = Unknown, signals = [read_failure],
        computed_at = now, sourceRemote = False \<rparr>, s)"
  by (simp add: analyze_def)

lemma analyze_hit:
  "fingerprint w t = Inr f \<Longrightarrow> cache_get (cache_ttl cfg) now f (cache_of s) = (Some v, c) \<Longrightarrow>
   analyze cfg w now t s = (v, s\<lparr> cache_of := c \<rparr>)"
  by (simp add: analyze_def)

lemma analyze_miss:
  "fingerprint w t = Inr f \<Longrightarrow> cache_get (cache_ttl cfg) now f (cache_of s) = (None, c) \<Longrightarrow>
   remote_lookup cfg w (disclosed w t f) s = ((remote, contributed), s') \<Longrightarrow>
   analyze cfg w now t s =
     (\<lparr> fingerprint_of = Some f,
        level = risk_level cfg (score w t (files w (raw t)) @ remote) contributed,
        signals = score w t (files w (raw t)) @ remote, computed_at = now,
        sourceRemote = contributed \<rparr>,
      s'\<lparr> cache_of := cache_put (cache_capacity cfg) now f
            \<lparr> fingerprint_of = Some f,
              level = risk_level cfg (score w t (files w (raw t)) @ remote) contributed,
              signals = score w t (files w (raw t)) @ remote, computed_at = now,
              sourceRemote = contributed \<rparr> (cache_of s') \<rparr>)"
  by (simp add: analyze_def Let_def)

lemma analyze_miss_level:
  assumes "fingerprint w t = Inr f" "fst (cache_get (cache_ttl cfg) now f (cache_of s)) = None"
    "analyze cfg w now t s = (v, s')"
  shows "level v = risk_level cfg (signals v) (sourceRemote v)"
proof -
  obtain c where c: "cache_get (cache_ttl cfg) now f (cache_of s) = (None, c)"
    using assms(2) by (cases "cache_get (cache_ttl cfg) now f (cache_of s)") simp
  obtain remote contributed s1 where r: "remote_lookup cfg w (disclosed w t f) s = ((remote, contributed), s1)"
    by (metis surj_pair)
  show ?thesis
    using assms(3) by (simp add: analyze_miss [OF assms(1) c r]) auto
qed

text \<open>
  C2, as claimed, fails on a file that cannot be read: the Verdict carries a Signal,
  whose severity is below the suspicious threshold, and no remote data, and its
  level is \<open>Unknown\<close>, neither \<open>Safe\<close> nor a level without Signals.
\<close>

theorem analyze_level_counterexample:
  "level (fst (analyze demo_config demo_world 7 vanished fresh_engine)) = Unknown
   \<and> signals (fst (analyze demo_config demo_world 7 vanished fresh_engine)) = [read_failure]
   \<and> severity read_failure < suspicious_threshold demo_config
   \<and> \<not> sourceRemote (fst (analyze demo_config demo_world 7 vanished fresh_engine))"
  by (simp add: demo_defs engine_defs Let_def)

lemma remote_lookup_cache: "cache_of (snd (remote_lookup cfg w what s)) = cache_of s"
  by (auto simp: remote_lookup_def Let_def split: prod.splits sum.splits)

text \<open>
  Every Verdict in the cache has the level its Signals give: this holds of an engine
  that has not run yet and every analysis keeps it, so it holds after any history.
\<close>

lemma coherent_fresh: "coherent cfg fresh_engine"
  by (simp add: coherent_def fresh_engine_def)

lemma map_of_list_all:
  "map_of c f = Some e \<Longrightarrow> list_all P c \<Longrightarrow> P (f, e)"
  by (auto simp: list_all_iff dest: map_of_SomeD)

lemma cache_get_list_all:
  assumes "list_all P c" "cache_get ttl now f c = (r, c')"
  shows "list_all P c' \<and> (\<forall>v. r = Some v \<longrightarrow> (\<exists>e. P (f, e) \<and> cached e = v))"
  using assms map_of_list_all [of c f _ P]
  by (auto simp: cache_get_def list_all_iff split: option.splits if_splits)

lemma cache_put_list_all:
  assumes "list_all P c" "P (f, \<lparr> cached = v, stored_at = now \<rparr>)"
  shows "list_all P (cache_put capacity now f v c)"
  using assms by (auto simp: cache_put_def list_all_iff dest!: in_set_takeD)

lemma analyze_coherent:
  assumes "coherent cfg s" "analyze cfg w now t s = (v, s')"
  shows "coherent cfg s'
       \<and> (\<forall>f. fingerprint w t = Inr f \<longrightarrow> level v = risk_level cfg (signals v) (sourceRemote v))"
proof (cases "fingerprint w t")
  case (Inl e)
  then show ?thesis
    using assms by (simp add: analyze_unreadable)
next
  case (Inr f)
  let ?P = "\<lambda>(f, e). level (cached e) = risk_level cfg (signals (cached e)) (sourceRemote (cached e))"
  have inv: "list_all ?P (cache_of s)"
    using assms(1) by (simp add: coherent_def)
  obtain r c where g: "cache_get (cache_ttl cfg) now f (cache_of s) = (r, c)"
    by (cases "cache_get (cache_ttl cfg) now f (cache_of s)")
  from cache_get_list_all [OF inv g]
  have c: "list_all ?P c" and hit: "\<forall>u. r = Some u \<longrightarrow> (\<exists>e :: entry. ?P (f, e) \<and> cached e = u)"
    by simp_all
  show ?thesis
  proof (cases r)
    case (Some u)
    then have "v = u" "s' = s\<lparr> cache_of := c \<rparr>"
      using assms(2) analyze_hit [OF Inr, of cfg now s u c] g by simp_all
    moreover have "level u = risk_level cfg (signals u) (sourceRemote u)"
      using hit Some by auto
    ultimately show ?thesis
      using c Inr by (simp add: coherent_def)
  next
    case None
    obtain remote contributed s1
      where rl: "remote_lookup cfg w (disclosed w t f) s = ((remote, contributed), s1)"
      by (metis surj_pair)
    have same: "cache_of s1 = cache_of s"
      using remote_lookup_cache [of cfg w "disclosed w t f" s] rl by simp
    have lv: "level v = risk_level cfg (signals v) (sourceRemote v)"
      using analyze_miss_level [OF Inr _ assms(2)] g None by simp
    have "s' = s1\<lparr> cache_of := cache_put (cache_capacity cfg) now f v (cache_of s1) \<rparr>"
      using assms(2) g None by (simp add: analyze_miss [OF Inr _ rl]) auto
    then have "coherent cfg s'"
      using inv lv by (simp add: coherent_def same cache_put_list_all)
    with lv show ?thesis by simp
  qed
qed

lemma replay_coherent: "coherent cfg s \<Longrightarrow> coherent cfg (replay cfg history s)"
proof (induction history arbitrary: s)
  case Nil
  then show ?case by simp
next
  case (Cons x history)
  obtain w now t where x: "x = (w, now, t)"
    by (cases x)
  have "coherent cfg (snd (analyze cfg w now t s))"
    using analyze_coherent [OF Cons.prems, of w now t "fst (analyze cfg w now t s)"] by simp
  then show ?case
    using Cons.IH x by simp
qed

text \<open>
  C2, amended. Take an engine that started with an empty cache and has analysed
  any sequence of Targets under its configuration. For every further call of
  \<open>analyze\<close> whose Target can be fingerprinted, whether the Verdict is computed or
  taken from the cache, its level is \<open>Dangerous\<close> exactly when some Signal reaches the
  danger threshold, \<open>Suspicious\<close> exactly when some Signal reaches the suspicious
  threshold and none the danger threshold, \<open>Safe\<close> when Signals exist and all are below
  both thresholds, and \<open>Unknown\<close> exactly when there is no Signal and no remote data;
  with Signals present it is the level of the highest severity alone. When the
  Target cannot be fingerprinted the Verdict is \<open>Unknown\<close> and carries the one Signal
  that explains the read failure.
\<close>

theorem analyze_level:
  assumes "analyze cfg w now t (replay cfg history fresh_engine) = (v, s')"
  shows "(\<forall>f. fingerprint w t = Inr f \<longrightarrow>
            (level v = Dangerous \<longleftrightarrow> (\<exists>x \<in> set (signals v). severity x \<ge> danger_threshold cfg))
          \<and> (level v = Suspicious \<longleftrightarrow>
                (\<exists>x \<in> set (signals v). severity x \<ge> suspicious_threshold cfg)
                \<and> \<not> (\<exists>x \<in> set (signals v). severity x \<ge> danger_threshold cfg))
          \<and> (signals v \<noteq> [] \<and> (\<forall>x \<in> set (signals v). severity x < suspicious_threshold cfg
                                                \<and> severity x < danger_threshold cfg)
                \<longrightarrow> level v = Safe)
          \<and> (level v = Unknown \<longleftrightarrow> signals v = [] \<and> \<not> sourceRemote v)
          \<and> (signals v \<noteq> [] \<longrightarrow>
                level v = level_of_severity cfg (Max (severity ` set (signals v)))))
       \<and> (\<forall>e. fingerprint w t = Inl e \<longrightarrow>
             level v = Unknown \<and> signals v = [read_failure] \<and> \<not> sourceRemote v)"
proof (intro conjI allI impI)
  fix f
  assume a: "fingerprint w t = Inr f"
  have "coherent cfg (replay cfg history fresh_engine)"
    by (intro replay_coherent coherent_fresh)
  then have lv: "level v = risk_level cfg (signals v) (sourceRemote v)"
    using analyze_coherent [OF _ assms] a by blast
  show "level v = Dangerous \<longleftrightarrow> (\<exists>x \<in> set (signals v). severity x \<ge> danger_threshold cfg)"
    by (simp add: lv risk_level_Dangerous)
  show "level v = Suspicious \<longleftrightarrow>
                (\<exists>x \<in> set (signals v). severity x \<ge> suspicious_threshold cfg)
                \<and> \<not> (\<exists>x \<in> set (signals v). severity x \<ge> danger_threshold cfg)"
    by (simp add: lv risk_level_Suspicious)
  show "level v = Unknown \<longleftrightarrow> signals v = [] \<and> \<not> sourceRemote v"
    by (simp add: lv risk_level_Unknown)
  show "level v = level_of_severity cfg (Max (severity ` set (signals v)))" if "signals v \<noteq> []"
    using that by (simp add: lv risk_level_by_Max)
  show "level v = Safe"
    if "signals v \<noteq> [] \<and> (\<forall>x \<in> set (signals v). severity x < suspicious_threshold cfg
                                                \<and> severity x < danger_threshold cfg)"
    using that by (simp add: lv risk_level_Safe) (meson not_less)
next
  fix e
  assume "fingerprint w t = Inl e"
  from analyze_unreadable [OF this, of cfg now "replay cfg history fresh_engine"] assms
  show "level v = Unknown" "signals v = [read_failure]" "\<not> sourceRemote v"
    by auto
qed

text \<open>
  The theorem on a cache hit, the copy of a file analysed before under another
  name, and on the first analysis of a fresh engine.
\<close>

theorem analyze_level_witness:
  "fingerprint demo_world invoice_copy = Inr (FileFingerprint 3 3)
   \<and> signals (fst (analyze demo_config demo_world 200 invoice_copy
                 (replay demo_config [(demo_world, 100, invoice)] fresh_engine)))
       = [double_extension, flagged]
   \<and> level (fst (analyze demo_config demo_world 200 invoice_copy
                 (replay demo_config [(demo_world, 100, invoice)] fresh_engine))) = Dangerous
   \<and> level (fst (analyze demo_config demo_world 100 invoice
                 (replay demo_config [] fresh_engine))) = Dangerous"
proof -
  let ?s = "replay demo_config [(demo_world, 100, invoice)] fresh_engine"
  let ?r = "analyze demo_config demo_world 200 invoice_copy ?s"
  let ?q = "analyze demo_config demo_world 100 invoice (replay demo_config [] fresh_engine)"
  have run: "?r = (fst ?r, snd ?r)" and run0: "?q = (fst ?q, snd ?q)"
    by simp_all
  have sigs: "signals (fst ?r) = [double_extension, flagged]"
    by (simp add: demo_defs engine_defs Let_def)
  have sigs0: "signals (fst ?q) = [double_extension, flagged]"
    by (simp add: demo_defs engine_defs Let_def)
  have reach: "\<exists>x \<in> set [double_extension, flagged]. severity x \<ge> danger_threshold demo_config"
    by (simp add: flagged_def demo_config_def)
  have "level (fst ?r) = Dangerous \<longleftrightarrow>
      (\<exists>x \<in> set (signals (fst ?r)). severity x \<ge> danger_threshold demo_config)"
    by (rule analyze_level [OF run, THEN conjunct1, rule_format, OF fp_copy, THEN conjunct1])
  then have hit: "level (fst ?r) = Dangerous"
    using reach by (simp only: sigs)
  have "level (fst ?q) = Dangerous \<longleftrightarrow>
      (\<exists>x \<in> set (signals (fst ?q)). severity x \<ge> danger_threshold demo_config)"
    by (rule analyze_level [OF run0, THEN conjunct1, rule_format, OF fp_invoice, THEN conjunct1])
  then have miss: "level (fst ?q) = Dangerous"
    using reach by (simp only: sigs0)
  from fp_copy sigs hit miss show ?thesis
    by (intro conjI)
qed

subsection \<open>Fingerprints\<close>

text \<open>
  The Fingerprinter is deterministic and looks at nothing but the content: two file
  Targets with the same content have the same Fingerprint, whatever their paths and
  declared types, and two URL Targets with the same normalized URL have the same
  Fingerprint. That a modified content gets another Fingerprint is the collision
  resistance of the hash function, which is a parameter here; nothing is stated
  about it.
\<close>

lemma fingerprint_same_content:
  "(kind t = File \<and> kind t' = File \<and> hash w' = hash w
      \<and> files w (raw t) = Some content \<and> files w' (raw t') = Some content
      \<longrightarrow> fingerprint w' t' = fingerprint w t
          \<and> fingerprint w t = Inr (file_fingerprint (hash w) content))
   \<and> (kind t = Url \<and> kind t' = Url \<and> hash w' = hash w
      \<and> normalize w' (raw t') = normalize w (raw t)
      \<longrightarrow> fingerprint w' t' = fingerprint w t)"
  by (auto simp: fingerprint_def file_fingerprint_def url_fingerprint_def)

subsection \<open>Cache effectiveness\<close>


lemma map_of_touch: "map_of ((f, e) # filter (\<lambda>(k, e'). k \<noteq> f) c) f = Some e"
  by simp









subsection \<open>What leaves the machine\<close>

lemma remote_lookup_outbound:
  "outbound (snd (remote_lookup cfg w what s)) =
     outbound s @ (if remote_enabled cfg then map (request_for what) (filter enabled (providers cfg)) else [])"
  by (auto simp: remote_lookup_def query_def Let_def split: sum.splits)

lemma analyze_outbound:
  "outbound (snd (analyze cfg w now t s)) =
     (case fingerprint w t of
        Inl e \<Rightarrow> outbound s
      | Inr f \<Rightarrow>
          if fst (cache_get (cache_ttl cfg) now f (cache_of s)) = None \<and> remote_enabled cfg
          then outbound s @ map (request_for (disclosed w t f)) (filter enabled (providers cfg))
          else outbound s)"
proof (cases "fingerprint w t")
  case (Inl e)
  then show ?thesis by (simp add: analyze_unreadable)
next
  case (Inr f)
  show ?thesis
  proof (cases "fst (cache_get (cache_ttl cfg) now f (cache_of s))")
    case None
    then obtain c where c: "cache_get (cache_ttl cfg) now f (cache_of s) = (None, c)"
      by (cases "cache_get (cache_ttl cfg) now f (cache_of s)") simp
    obtain remote contributed s1
      where r: "remote_lookup cfg w (disclosed w t f) s = ((remote, contributed), s1)"
      by (metis surj_pair)
    have "outbound s1 = outbound (snd (remote_lookup cfg w (disclosed w t f) s))"
      by (simp add: r)
    then show ?thesis
      by (simp add: analyze_miss [OF Inr c r] Inr None remote_lookup_outbound)
  next
    case (Some u)
    then obtain c where c: "cache_get (cache_ttl cfg) now f (cache_of s) = (Some u, c)"
      by (cases "cache_get (cache_ttl cfg) now f (cache_of s)") simp
    show ?thesis
      by (simp add: analyze_hit [OF Inr c] Inr Some)
  qed
qed

lemma disclosed_eq:
  assumes "fingerprint w' t' = Inr f" "fingerprint w t = Inr f"
    "kind t = Url \<longrightarrow> normalize w' (raw t') = normalize w (raw t)"
  shows "disclosed w' t' f = disclosed w t f"
  using assms by (cases f; cases "kind t")
    (auto simp: disclosed_def fingerprint_def file_fingerprint_def url_fingerprint_def
      split: option.splits kind.splits)

text \<open>
  C5. An analysis sends nothing, or one request to each enabled provider, made of
  the provider's endpoint, the provider's credential as auth header, and the
  disclosed payload. For a file the payload is the digest of its content, for a URL
  the normalized URL string. Hence any Target with the same Fingerprint (and, for a
  URL, the same normalized string) produces the same requests from the same engine
  state, whatever its path, its name, its content and the file system around it.
\<close>

theorem outbound_carries_only_fingerprint:
  "(outbound (snd (analyze cfg w now t s)) = outbound s
      \<or> (\<exists>f. fingerprint w t = Inr f
            \<and> outbound (snd (analyze cfg w now t s)) =
                outbound s @ map (\<lambda>p. \<lparr> to_endpoint = base_endpoint p, auth_header = credential p,
                                       carries = disclosed w t f \<rparr>)
                               (filter enabled (providers cfg))))
   \<and> (\<forall>f. kind t = File \<and> fingerprint w t = Inr f \<longrightarrow>
         (\<exists>content. files w (raw t) = Some content
                   \<and> disclosed w t f = HashDigest (hash w content)))
   \<and> (\<forall>f. kind t = Url \<and> fingerprint w t = Inr f \<longrightarrow>
         disclosed w t f = NormalizedUrl (normalize w (raw t)))
   \<and> (\<forall>w' t'. fingerprint w' t' = fingerprint w t
          \<and> (kind t = Url \<longrightarrow> normalize w' (raw t') = normalize w (raw t)) \<longrightarrow>
         outbound (snd (analyze cfg w' now t' s)) = outbound (snd (analyze cfg w now t s)))"
proof (intro conjI allI impI)
  show "outbound (snd (analyze cfg w now t s)) = outbound s
      \<or> (\<exists>f. fingerprint w t = Inr f
            \<and> outbound (snd (analyze cfg w now t s)) =
                outbound s @ map (\<lambda>p. \<lparr> to_endpoint = base_endpoint p, auth_header = credential p,
                                       carries = disclosed w t f \<rparr>)
                               (filter enabled (providers cfg)))"
    by (cases "fingerprint w t") (simp_all add: analyze_outbound request_for_def)
next
  fix f
  assume "kind t = File \<and> fingerprint w t = Inr f"
  then show "\<exists>content. files w (raw t) = Some content \<and> disclosed w t f = HashDigest (hash w content)"
    by (auto simp: fingerprint_def file_fingerprint_def disclosed_def split: option.splits)
next
  fix f
  assume "kind t = Url \<and> fingerprint w t = Inr f"
  then show "disclosed w t f = NormalizedUrl (normalize w (raw t))"
    by (auto simp: fingerprint_def url_fingerprint_def disclosed_def)
next
  fix w' t'
  assume a: "fingerprint w' t' = fingerprint w t
          \<and> (kind t = Url \<longrightarrow> normalize w' (raw t') = normalize w (raw t))"
  show "outbound (snd (analyze cfg w' now t' s)) = outbound (snd (analyze cfg w now t s))"
  proof (cases "fingerprint w t")
    case (Inl e)
    with a show ?thesis by (simp add: analyze_outbound)
  next
    case (Inr f)
    with a have "disclosed w' t' f = disclosed w t f"
      by (intro disclosed_eq) simp_all
    with a Inr show ?thesis by (simp add: analyze_outbound)
  qed
qed

theorem outbound_carries_only_fingerprint_witness:
  "outbound (snd (analyze demo_config demo_world 100 invoice fresh_engine))
     = [\<lparr> to_endpoint = ''https://reputation.example/api'', auth_header = ''x-apikey: k'',
          carries = HashDigest 3 \<rparr>]
   \<and> outbound (snd (analyze demo_config demo_world 100 invoice_copy fresh_engine))
     = outbound (snd (analyze demo_config demo_world 100 invoice fresh_engine))"
proof -
  have same: "fingerprint demo_world invoice_copy = fingerprint demo_world invoice"
    by (simp add: fp_invoice fp_copy)
  have isfile: "kind invoice = File"
    by (simp add: invoice_def)
  have content: "files demo_world (raw invoice) = Some [77, 90, 144]"
    by (simp add: demo_defs)
  note inst = outbound_carries_only_fingerprint
      [of demo_config demo_world 100 invoice fresh_engine,
       THEN conjunct2, THEN conjunct2, THEN conjunct2, rule_format, of demo_world invoice_copy]
  have copy: "outbound (snd (analyze demo_config demo_world 100 invoice_copy fresh_engine))
      = outbound (snd (analyze demo_config demo_world 100 invoice fresh_engine))"
    by (rule inst) (simp add: same isfile)
  have "outbound (snd (analyze demo_config demo_world 100 invoice fresh_engine))
     = [\<lparr> to_endpoint = ''https://reputation.example/api'', auth_header = ''x-apikey: k'',
          carries = HashDigest 3 \<rparr>]"
    by (simp add: demo_defs engine_defs Let_def)
  with copy show ?thesis
    by simp
qed

section \<open>Properties of the Directory Watcher\<close>













end
